theory Spec2Isabelle
  imports Main "HOL-Library.Word" "HOL-Library.Multiset"
begin

section \<open>A logging facade over zap: field encoders, Setup and lazy initialisation\<close>

text \<open>
  The package keeps one process-wide logger (\<open>logger\<close>, \<open>sugar\<close>), builds it in
  \<open>Setup\<close> from an optional configuration, builds a default one lazily in
  \<open>ensureInitialized\<close>, and renders three fields with its own encoders. Go strings are
  byte sequences and are modelled as \<open>string\<close>; a run-time panic is a value of type
  \<open>panic\<close>.
\<close>

datatype panic = SliceBoundsOutOfRange | NilPointerDereference

subsection \<open>The array encoder the field encoders append to\<close>

text \<open>\<open>zapcore.PrimitiveArrayEncoder\<close>, reduced to the strings appended so far.\<close>

type_synonym PrimitiveArrayEncoder = "string list"

definition AppendString :: "PrimitiveArrayEncoder \<Rightarrow> string \<Rightarrow> PrimitiveArrayEncoder" where
  "AppendString enc s = enc @ [s]"

subsection \<open>Severity levels\<close>

text \<open>\<open>zapcore.Level\<close> is an \<open>int8\<close>; the named levels are zap's constants.\<close>

type_synonym Level = "8 word"

definition DebugLevel :: Level where "DebugLevel = - 1"
definition InfoLevel :: Level where "InfoLevel = 0"
definition WarnLevel :: Level where "WarnLevel = 1"
definition ErrorLevel :: Level where "ErrorLevel = 2"
definition DPanicLevel :: Level where "DPanicLevel = 3"
definition PanicLevel :: Level where "PanicLevel = 4"
definition FatalLevel :: Level where "FatalLevel = 5"

subsection \<open>Decimal rendering\<close>

definition digit_char :: "nat \<Rightarrow> char" where
  "digit_char d = ''0123456789'' ! (d mod 10)"

function utoa :: "nat \<Rightarrow> string" where
  "utoa n = (if n < 10 then [digit_char n] else utoa (n div 10) @ [digit_char (n mod 10)])"
  by pat_completeness auto
termination
  by (relation "measure id") auto

declare utoa.simps [simp del]

text \<open>
  Go's \<open>appendInt(b, x, width)\<close> of package \<open>time\<close>: a minus sign for a negative
  number, then the decimal digits, padded with zeros on the left up to \<open>width\<close>. A number
  with more digits than \<open>width\<close> keeps all its digits.
\<close>

definition appendInt :: "int \<Rightarrow> nat \<Rightarrow> string" where
  "appendInt x width =
     (let ds = utoa (nat \<bar>x\<bar>)
      in (if x < 0 then ''-'' else '''') @ replicate (width - length ds) (CHR ''0'') @ ds)"

subsection \<open>The time encoder\<close>

text \<open>
  A \<open>time.Time\<close> as the calendar fields that \<open>Format\<close> reads from it (\<open>Date\<close>,
  \<open>Clock\<close>, \<open>YearDay\<close>, \<open>Nanosecond\<close>), in the time's own location.
\<close>

record Time =
  Year :: int
  Month :: nat
  Day :: nat
  YearDay :: nat
  Hour :: nat
  Minute :: nat
  Second :: nat
  Nanosecond :: nat

text \<open>
  The elements of a Go time layout that begin with a digit, and the fraction of zeros.
  This is the fragment of the layout language the program's layout is written in;
  elements that begin with a letter, a sign or an underscore, and the fraction of nines,
  are outside the model, and every other byte of a layout stands for itself.
\<close>

datatype chunk =
    Lit char
  | stdLongYear | stdYear
  | stdZeroMonth | stdNumMonth
  | stdZeroDay | stdDay | stdZeroYearDay
  | stdHour | stdHour12 | stdZeroHour12
  | stdZeroMinute | stdMinute
  | stdZeroSecond | stdSecond
  | stdFracSecond0 nat char

definition isDigit :: "string \<Rightarrow> nat \<Rightarrow> bool" where
  "isDigit s i = (i < length s \<and> s ! i \<in> set ''0123456789'')"

definition zero_run :: "string \<Rightarrow> nat" where
  "zero_run s = length (takeWhile (\<lambda>c. c = CHR ''0'') s)"

text \<open>
  \<open>nextStdChunk\<close>, read one position at a time: the element that starts at the head of
  the layout, in the order of Go's \<open>switch\<close>, or the head byte as a literal.
\<close>

function chunks :: "string \<Rightarrow> chunk list" where
  "chunks layout =
     (if layout = [] then []
      else if take 2 layout = ''01'' then stdZeroMonth # chunks (drop 2 layout)
      else if take 2 layout = ''02'' then stdZeroDay # chunks (drop 2 layout)
      else if take 2 layout = ''03'' then stdZeroHour12 # chunks (drop 2 layout)
      else if take 2 layout = ''04'' then stdZeroMinute # chunks (drop 2 layout)
      else if take 2 layout = ''05'' then stdZeroSecond # chunks (drop 2 layout)
      else if take 2 layout = ''06'' then stdYear # chunks (drop 2 layout)
      else if take 3 layout = ''002'' then stdZeroYearDay # chunks (drop 3 layout)
      else if take 2 layout = ''15'' then stdHour # chunks (drop 2 layout)
      else if take 1 layout = ''1'' then stdNumMonth # chunks (drop 1 layout)
      else if take 4 layout = ''2006'' then stdLongYear # chunks (drop 4 layout)
      else if take 1 layout = ''2'' then stdDay # chunks (drop 1 layout)
      else if take 1 layout = ''3'' then stdHour12 # chunks (drop 1 layout)
      else if take 1 layout = ''4'' then stdMinute # chunks (drop 1 layout)
      else if take 1 layout = ''5'' then stdSecond # chunks (drop 1 layout)
      else if (hd layout = CHR ''.'' \<or> hd layout = CHR '','')
              \<and> 0 < zero_run (tl layout)
              \<and> \<not> isDigit (tl layout) (zero_run (tl layout))
        then stdFracSecond0 (zero_run (tl layout)) (hd layout)
               # chunks (drop (1 + zero_run (tl layout)) layout)
      else Lit (hd layout) # chunks (tl layout))"
  by pat_completeness auto
termination
  by (relation "measure length") auto

declare chunks.simps [simp del]

text \<open>
  What \<open>Format\<close> appends for one element. The fraction is the separator the layout
  wrote, then the nine-digit nanosecond count cut to its first \<open>n\<close> digits.
\<close>

definition hour12 :: "nat \<Rightarrow> nat" where
  "hour12 h = (if h mod 12 = 0 then 12 else h mod 12)"

fun render :: "Time \<Rightarrow> chunk \<Rightarrow> string" where
  "render t (Lit c) = [c]"
| "render t stdLongYear = appendInt (Year t) 4"
| "render t stdYear = appendInt (\<bar>Year t\<bar> mod 100) 2"
| "render t stdZeroMonth = appendInt (int (Month t)) 2"
| "render t stdNumMonth = appendInt (int (Month t)) 0"
| "render t stdZeroDay = appendInt (int (Day t)) 2"
| "render t stdDay = appendInt (int (Day t)) 0"
| "render t stdZeroYearDay = appendInt (int (YearDay t)) 3"
| "render t stdHour = appendInt (int (Hour t)) 2"
| "render t stdHour12 = appendInt (int (hour12 (Hour t))) 0"
| "render t stdZeroHour12 = appendInt (int (hour12 (Hour t))) 2"
| "render t stdZeroMinute = appendInt (int (Minute t)) 2"
| "render t stdMinute = appendInt (int (Minute t)) 0"
| "render t stdZeroSecond = appendInt (int (Second t)) 2"
| "render t stdSecond = appendInt (int (Second t)) 0"
| "render t (stdFracSecond0 n sep) = sep # take n (appendInt (int (Nanosecond t)) 9)"

definition Format :: "Time \<Rightarrow> string \<Rightarrow> string" where
  "Format t layout = concat (map (render t) (chunks layout))"

text \<open>The encoder of the program: one string, the time in the fixed layout.\<close>

definition EncodeTime :: "Time \<Rightarrow> PrimitiveArrayEncoder \<Rightarrow> PrimitiveArrayEncoder" where
  "EncodeTime t enc = AppendString enc (Format t ''20060102 15:04:05.000'')"

subsection \<open>The level encoder\<close>

text \<open>
  \<open>l.CapitalString()\<close> is zap's; the encoder takes it as the parameter
  \<open>CapitalString\<close>. \<open>zap_CapitalString\<close> is zap's function as zap declares it, for
  running the encoder on concrete levels.
\<close>

definition EncodeLevel ::
  "(Level \<Rightarrow> string) \<Rightarrow> Level \<Rightarrow> PrimitiveArrayEncoder \<Rightarrow> PrimitiveArrayEncoder" where
  "EncodeLevel CapitalString l enc =
     (if l = DebugLevel then AppendString enc ''D''
      else if l = InfoLevel then AppendString enc ''I''
      else if l = WarnLevel then AppendString enc ''W''
      else if l = ErrorLevel then AppendString enc ''E''
      else if l = FatalLevel then AppendString enc ''F''
      else if l = PanicLevel then AppendString enc ''P''
      else AppendString enc (CapitalString l))"

definition zap_CapitalString :: "Level \<Rightarrow> string" where
  "zap_CapitalString l =
     (if l = DebugLevel then ''DEBUG''
      else if l = InfoLevel then ''INFO''
      else if l = WarnLevel then ''WARN''
      else if l = ErrorLevel then ''ERROR''
      else if l = DPanicLevel then ''DPANIC''
      else if l = PanicLevel then ''PANIC''
      else if l = FatalLevel then ''FATAL''
      else ''LEVEL('' @ appendInt (sint l) 0 @ '')'')"

subsection \<open>The caller encoder\<close>

text \<open>\<open>strings.Index\<close>: the first position where \<open>substr\<close> starts, or \<open>-1\<close>.\<close>

fun Index :: "string \<Rightarrow> string \<Rightarrow> int" where
  "Index [] substr = (if substr = [] then 0 else - 1)"
| "Index (c # s) substr =
     (if take (length substr) (c # s) = substr then 0
      else (let r = Index s substr in if r = - 1 then - 1 else r + 1))"

text \<open>The slice \<open>s[lo:]\<close>, which panics when \<open>lo\<close> is out of range.\<close>

definition slice_from :: "string \<Rightarrow> int \<Rightarrow> panic + string" where
  "slice_from s lo =
     (if 0 \<le> lo \<and> lo \<le> int (length s) then Inr (drop (nat lo) s)
      else Inl SliceBoundsOutOfRange)"

text \<open>
  \<open>caller.TrimmedPath()\<close> is zap's and is the parameter \<open>TrimmedPath\<close>: the encoder
  works on the string it returns.
\<close>

definition EncodeCaller ::
  "('caller \<Rightarrow> string) \<Rightarrow> 'caller \<Rightarrow> PrimitiveArrayEncoder \<Rightarrow> panic + PrimitiveArrayEncoder"
  where
  "EncodeCaller TrimmedPath caller enc =
     (let callerPath = TrimmedPath caller;
          idx = Index callerPath ''/''
      in if idx \<noteq> - 1
         then (case slice_from callerPath (idx + 1) of
                 Inl e \<Rightarrow> Inl e
               | Inr callerPath' \<Rightarrow> Inr (AppendString enc callerPath'))
         else Inr (AppendString enc callerPath))"

subsection \<open>The configuration\<close>

text \<open>
  The \<open>Config\<close> interface, with methods that return, and return the same value at
  every call; a \<open>nil\<close> configuration is \<open>None\<close>.
\<close>

record Config =
  Level :: string
  Path :: string
  Console :: bool
  Async :: bool

subsection \<open>Lower-casing\<close>

definition lower_byte :: "char \<Rightarrow> char" where
  "lower_byte c =
     (case map_of (zip ''ABCDEFGHIJKLMNOPQRSTUVWXYZ'' ''abcdefghijklmnopqrstuvwxyz'') c of
        Some d \<Rightarrow> d
      | None \<Rightarrow> c)"

text \<open>
  \<open>strings.ToLower\<close>: a string of ASCII bytes has its letters \<open>A\<close> to \<open>Z\<close> lowered; any
  other string goes through Unicode's lower-case mapping rune by rune, which is the
  parameter \<open>unicodeLower\<close>.
\<close>

definition ToLower :: "(string \<Rightarrow> string) \<Rightarrow> string \<Rightarrow> string" where
  "ToLower unicodeLower s =
     (if list_all (\<lambda>c. of_char c < (128 :: nat)) s then map lower_byte s
      else unicodeLower s)"

subsection \<open>Encoder configuration, sinks and loggers\<close>

datatype TimeEncoder = ISO8601TimeEncoder | customTimeEncoder
datatype LevelEncoder = CapitalLevelEncoder | customLevelEncoder
datatype DurationEncoder = StringDurationEncoder | SecondsDurationEncoder
datatype CallerEncoder = ShortCallerEncoder | customCallerEncoder

text \<open>
  \<open>zapcore.EncoderConfig\<close>. An encoder field holds the name of the function stored in
  it; an empty \<open>ConsoleSeparator\<close> is the zero value of the field.
\<close>

record EncoderConfig =
  MessageKey :: string
  LevelKey :: string
  TimeKey :: string
  NameKey :: string
  CallerKey :: string
  FunctionKey :: string
  StacktraceKey :: string
  LineEnding :: string
  EncodeLevel_enc :: LevelEncoder
  EncodeTime_enc :: TimeEncoder
  EncodeDuration_enc :: DurationEncoder
  EncodeCaller_enc :: CallerEncoder
  ConsoleSeparator :: string

text \<open>\<open>zap.NewDevelopmentEncoderConfig()\<close>, as zap declares it.\<close>

definition NewDevelopmentEncoderConfig :: EncoderConfig where
  "NewDevelopmentEncoderConfig =
     \<lparr>MessageKey = ''M'', LevelKey = ''L'', TimeKey = ''T'', NameKey = ''N'',
      CallerKey = ''C'', FunctionKey = [], StacktraceKey = ''S'',
      LineEnding = [CHR 0x0A],
      EncodeLevel_enc = CapitalLevelEncoder, EncodeTime_enc = ISO8601TimeEncoder,
      EncodeDuration_enc = StringDurationEncoder, EncodeCaller_enc = ShortCallerEncoder,
      ConsoleSeparator = []\<rparr>"

text \<open>The rotating file of \<open>lumberjack.Logger\<close>: the fields the program sets.\<close>

record lumberjack_Logger =
  Filename :: string
  MaxSize :: int
  MaxBackups :: int
  MaxAge :: int
  Compress :: bool

datatype io_Writer = os_Stdout | hook lumberjack_Logger

text \<open>
  A \<open>zapcore.WriteSyncer\<close>: a writer made one by \<open>AddSync\<close>, a fan-out over several,
  or a \<open>BufferedWriteSyncer\<close> with its \<open>WS\<close> and \<open>Size\<close>.
\<close>

datatype WriteSyncer =
    AddSync io_Writer
  | multiWriteSyncer "WriteSyncer list"
  | BufferedWriteSyncer WriteSyncer int

text \<open>\<open>zapcore.NewMultiWriteSyncer\<close>: a single syncer is returned as it is.\<close>

definition NewMultiWriteSyncer :: "WriteSyncer list \<Rightarrow> WriteSyncer" where
  "NewMultiWriteSyncer ws = (if length ws = 1 then ws ! 0 else multiWriteSyncer ws)"

text \<open>The writers a write to a syncer ends in, in order.\<close>

fun sinks :: "WriteSyncer \<Rightarrow> io_Writer list" where
  "sinks (AddSync w) = [w]"
| "sinks (multiWriteSyncer ws) = concat (map sinks ws)"
| "sinks (BufferedWriteSyncer ws n) = sinks ws"

fun is_buffered :: "WriteSyncer \<Rightarrow> bool" where
  "is_buffered (BufferedWriteSyncer ws n) = True"
| "is_buffered (AddSync w) = False"
| "is_buffered (multiWriteSyncer ws) = False"

record Core =
  encoder :: EncoderConfig
  out :: WriteSyncer
  enab :: Level

definition NewConsoleEncoder :: "EncoderConfig \<Rightarrow> EncoderConfig" where
  "NewConsoleEncoder cfg = cfg"

definition NewCore :: "EncoderConfig \<Rightarrow> WriteSyncer \<Rightarrow> Level \<Rightarrow> Core" where
  "NewCore e ws l = \<lparr>encoder = e, out = ws, enab = l\<rparr>"


record Logger =
  core :: Core
  addCaller :: bool
  callerSkip :: int

datatype zap_Option = AddCaller | AddCallerSkip int

fun apply_Option :: "zap_Option \<Rightarrow> Logger \<Rightarrow> Logger" where
  "apply_Option AddCaller log = log\<lparr>addCaller := True\<rparr>"
| "apply_Option (AddCallerSkip skip) log = log\<lparr>callerSkip := callerSkip log + skip\<rparr>"

definition New :: "Core \<Rightarrow> zap_Option list \<Rightarrow> Logger" where
  "New c opts = fold apply_Option opts \<lparr>core = c, addCaller = False, callerSkip = 0\<rparr>"

text \<open>
  \<open>logger.Sugar()\<close>: the sugared logger over a logger (zap's own adjustment of the
  caller skip inside \<open>Sugar\<close> is not modelled).
\<close>

datatype SugaredLogger = Sugar (base: Logger)

subsection \<open>Setup and Unsetup\<close>

text \<open>The logger \<open>Setup\<close> builds before it takes the lock (lines 69 to 133, and 138).\<close>

definition Setup_logger :: "(string \<Rightarrow> string) \<Rightarrow> Config option \<Rightarrow> Logger" where
  "Setup_logger unicodeLower config =
     (let encoderConfig = NewDevelopmentEncoderConfig
            \<lparr>EncodeTime_enc := customTimeEncoder,
             EncodeLevel_enc := customLevelEncoder,
             EncodeDuration_enc := SecondsDurationEncoder,
             EncodeCaller_enc := customCallerEncoder,
             ConsoleSeparator := '' ''\<rparr>;
          level = DebugLevel;
          level =
            (case config of
               None \<Rightarrow> level
             | Some c \<Rightarrow>
                 if Level c \<noteq> [] then
                   (let l = ToLower unicodeLower (Level c)
                    in if l = ''debug'' then DebugLevel
                       else if l = ''info'' then InfoLevel
                       else if l = ''warn'' \<or> l = ''warning'' then WarnLevel
                       else if l = ''error'' then ErrorLevel
                       else if l = ''fatal'' then FatalLevel
                       else if l = ''panic'' then PanicLevel
                       else level)
                 else level);
          writer =
            (case config of
               Some c \<Rightarrow>
                 (let hk = \<lparr>Filename = Path c, MaxSize = 10, MaxBackups = 30, MaxAge = 7,
                            Compress = True\<rparr>
                  in if Console c
                     then NewMultiWriteSyncer [AddSync os_Stdout, AddSync (hook hk)]
                     else AddSync (hook hk))
             | None \<Rightarrow> NewMultiWriteSyncer [AddSync os_Stdout]);
          writer =
            (case config of
               Some c \<Rightarrow> if Async c then BufferedWriteSyncer writer 4096 else writer
             | None \<Rightarrow> writer);
          core = NewCore (NewConsoleEncoder encoderConfig) writer level
      in New core [AddCaller, AddCallerSkip 1])"

text \<open>The two package variables a caller of \<open>Setup\<close> sees change.\<close>

record Globals =
  logger :: "Logger option"
  sugar :: "SugaredLogger option"

type_synonym error = string

text \<open>
  \<open>Setup\<close> run on its own (lines 137 to 142): the logger is stored, \<open>sugar\<close> is made
  from the stored logger, and \<open>nil\<close> is returned. \<open>Sugar\<close> on a \<open>nil\<close> logger would be
  a run-time panic.
\<close>

definition Setup ::
  "(string \<Rightarrow> string) \<Rightarrow> Config option \<Rightarrow> 'a Globals_scheme
     \<Rightarrow> panic + (error option \<times> 'a Globals_scheme)" where
  "Setup unicodeLower config g =
     (let g = g\<lparr>logger := Some (Setup_logger unicodeLower config)\<rparr>
      in case logger g of
           None \<Rightarrow> Inl NilPointerDereference
         | Some lg \<Rightarrow> Inr (None, g\<lparr>sugar := Some (Sugar lg)\<rparr>))"

definition Unsetup :: "'a Globals_scheme \<Rightarrow> panic + (error option \<times> 'a Globals_scheme)" where
  "Unsetup g = Inr (None, g)"

text \<open>The logger the body of \<open>ensureInitialized\<close> builds (lines 174 to 187).\<close>

definition default_logger :: Logger where
  "default_logger =
     (let encoderConfig = NewDevelopmentEncoderConfig
            \<lparr>EncodeTime_enc := customTimeEncoder,
             EncodeLevel_enc := customLevelEncoder,
             EncodeDuration_enc := SecondsDurationEncoder,
             EncodeCaller_enc := customCallerEncoder,
             ConsoleSeparator := '' ''\<rparr>;
          core = NewCore (NewConsoleEncoder encoderConfig) (AddSync os_Stdout) DebugLevel
      in New core [AddCaller, AddCallerSkip 1])"

subsection \<open>The leveled logging functions and the threads that call them\<close>

datatype LogFn =
    Debug | Info | Warn | Error | Fatal | Panic
  | Debugf | Infof | Warnf | Errorf | Fatalf | Panicf


text \<open>
  A call of the package's API. The string of a logging call is the message its arguments
  format to.
\<close>

datatype call = Log LogFn string | SetupCall "Config option" | UnsetupCall

text \<open>
  Where a thread stands. A point named \<open>Lnnn\<close> is about to run line \<open>nnn\<close> of the
  source:
  \<^item> \<open>L155\<close> \<open>initMu.RLock()\<close>; \<open>L156\<close> \<open>if sugar != nil\<close>; \<open>L157\<close> \<open>initMu.RUnlock()\<close>
    and return; \<open>L160\<close> \<open>initMu.RUnlock()\<close>;
  \<^item> \<open>L163\<close> \<open>initOnce.Do\<close>, the first read of the latch's \<open>done\<close> flag;
    \<open>Once_Lock\<close> the latch's \<open>m.Lock()\<close>; \<open>Once_Check\<close> its second read of \<open>done\<close>;
    \<open>Once_Store\<close> its deferred \<open>done.Store(1)\<close>; \<open>Once_Unlock\<close> its deferred
    \<open>m.Unlock()\<close>;
  \<^item> \<open>L165\<close> \<open>initMu.Lock()\<close>, which first takes the writers' mutex, and at
    \<open>L165_wait\<close> waits until the readers have left; \<open>L168\<close> \<open>if sugar != nil\<close>;
    \<open>L174\<close> the construction of the default logger, up to \<open>logger = ...\<close> of line 187;
    \<open>L188\<close> \<open>sugar = logger.Sugar()\<close>; \<open>L166\<close> the deferred \<open>initMu.Unlock()\<close>;
  \<^item> \<open>Sugar_call\<close> the call \<open>sugar.Debug(args...)\<close> (or its sibling) after
    \<open>ensureInitialized\<close> has returned;
  \<^item> \<open>L137\<close> \<open>initMu.Lock()\<close> of \<open>Setup\<close> and \<open>L137_wait\<close> its wait for the readers;
    \<open>L138\<close> \<open>logger = zap.New(...)\<close>; \<open>L139\<close> \<open>sugar = logger.Sugar()\<close>; \<open>L140\<close>
    \<open>initMu.Unlock()\<close> and \<open>return nil\<close>;
  \<^item> \<open>Panicked\<close> after \<open>Panic\<close> or \<open>Panicf\<close> has written and raised its panic;
    \<open>Crashed\<close> after a run-time panic.
\<close>

datatype pc =
    Idle
  | L155 | L156 | L157 | L160
  | L163 | Once_Lock | Once_Check
  | L165 | L165_wait | L168 | L174 | L188 | L166
  | Once_Store | Once_Unlock
  | Sugar_call
  | L137 | L137_wait | L138 | L139 | L140
  | Panicked
  | Crashed panic

text \<open>A thread: where it stands, and the calls it still has to make, the current one first.\<close>

record thread =
  pc :: pc
  todo :: "call list"

text \<open>
  The process. \<open>initOnce\<close> is the latch's \<open>done\<close> flag and the holder of its mutex;
  \<open>initMu\<close> is the holder of the writers' mutex (a writer that holds the lock or waits
  for the readers to leave) and the threads that hold a read lock. \<open>written\<close> is the
  output: the entries the cores wrote, each with the syncer it went to. \<open>default_runs\<close>,
  \<open>setup_installs\<close> and \<open>from_setup\<close> are counters and a flag of the model, not of the
  program: how often the default construction ran, how often a \<open>Setup\<close> stored
  \<open>sugar\<close>, and whether the last store to \<open>sugar\<close> was \<open>Setup\<close>'s.
\<close>

record State = Globals +
  initOnce_done :: bool
  initOnce_m :: "nat option"
  initMu_w :: "nat option"
  initMu_readers :: "nat set"
  threads :: "thread list"
  written :: "(WriteSyncer \<times> Level \<times> string) list"
  default_runs :: nat
  setup_installs :: nat
  from_setup :: bool
  exited :: bool


definition goto :: "nat \<Rightarrow> pc \<Rightarrow> State \<Rightarrow> State" where
  "goto t p s = s\<lparr>threads := (threads s)[t := (threads s ! t)\<lparr>pc := p\<rparr>]\<rparr>"

text \<open>The current call returns to its caller, which goes on to its next call.\<close>

definition return :: "nat \<Rightarrow> State \<Rightarrow> State" where
  "return t s =
     s\<lparr>threads := (threads s)[t := \<lparr>pc = Idle, todo = tl (todo (threads s ! t))\<rparr>]\<rparr>"





subsection \<open>What the specification says, in its own words\<close>

text \<open>
  The pattern \<open>YYYYMMDD HH:MM:SS.mmm\<close>: each letter one decimal digit of the field it
  names, the milliseconds being the nanoseconds cut to milliseconds.
\<close>

fun fixed :: "nat \<Rightarrow> nat \<Rightarrow> string" where
  "fixed 0 n = []"
| "fixed (Suc w) n = fixed w (n div 10) @ [digit_char (n mod 10)]"

definition pattern_YYYYMMDD_HHMMSS_mmm :: "Time \<Rightarrow> string" where
  "pattern_YYYYMMDD_HHMMSS_mmm t =
     fixed 4 (nat (Year t)) @ fixed 2 (Month t) @ fixed 2 (Day t) @ '' ''
     @ fixed 2 (Hour t) @ '':'' @ fixed 2 (Minute t) @ '':'' @ fixed 2 (Second t)
     @ ''.'' @ fixed 3 (Nanosecond t div 1000000)"

text \<open>A string has the shape of the pattern: a digit where the shape has a \<open>9\<close>.\<close>

definition in_pattern :: "string \<Rightarrow> bool" where
  "in_pattern s =
     list_all2 (\<lambda>c p. if p = CHR ''9'' then c \<in> set ''0123456789'' else c = p)
       s ''99999999 99:99:99.999''"

text \<open>The ranges Go gives the month, day and clock fields of every \<open>time.Time\<close>.\<close>

definition clock_fields_ok :: "Time \<Rightarrow> bool" where
  "clock_fields_ok t =
     (1 \<le> Month t \<and> Month t \<le> 12 \<and> 1 \<le> Day t \<and> Day t \<le> 31 \<and> Hour t < 24
      \<and> Minute t < 60 \<and> Second t < 60 \<and> Nanosecond t < 1000000000)"

text \<open>
  The level names of the specification and the thresholds they map to; a string that
  is none of them leaves the default, debug.
\<close>

definition level_table :: "(string \<times> Level) list" where
  "level_table =
     [(''debug'', DebugLevel), (''info'', InfoLevel), (''warn'', WarnLevel),
      (''warning'', WarnLevel), (''error'', ErrorLevel), (''fatal'', FatalLevel),
      (''panic'', PanicLevel)]"

definition spec_threshold :: "string \<Rightarrow> Level" where
  "spec_threshold name = (case map_of level_table name of Some l \<Rightarrow> l | None \<Rightarrow> DebugLevel)"

text \<open>Two strings are the same but for the case of their ASCII letters.\<close>

definition equal_ignoring_case :: "string \<Rightarrow> string \<Rightarrow> bool" where
  "equal_ignoring_case a b = (map lower_byte a = map lower_byte b)"

definition is_ascii :: "string \<Rightarrow> bool" where
  "is_ascii s = list_all (\<lambda>c. of_char c < (128 :: nat)) s"

text \<open>The threshold the specification gives a level string of ASCII bytes.\<close>

definition spec_threshold_ascii :: "string \<Rightarrow> Level" where
  "spec_threshold_ascii s =
     (case find (\<lambda>(name, l). equal_ignoring_case s name) level_table of
        Some (name, l) \<Rightarrow> l
      | None \<Rightarrow> DebugLevel)"

text \<open>The threshold of the logger \<open>Setup\<close> builds.\<close>

definition Setup_threshold :: "(string \<Rightarrow> string) \<Rightarrow> Config option \<Rightarrow> Level" where
  "Setup_threshold unicodeLower config = enab (core (Setup_logger unicodeLower config))"

text \<open>The syncer of the logger \<open>Setup\<close> builds.\<close>

definition Setup_writer :: "(string \<Rightarrow> string) \<Rightarrow> Config option \<Rightarrow> WriteSyncer" where
  "Setup_writer unicodeLower config = out (core (Setup_logger unicodeLower config))"

text \<open>The rotating file \<open>Setup\<close> declares for a configuration.\<close>

definition rotating_file :: "Config \<Rightarrow> io_Writer" where
  "rotating_file c =
     hook \<lparr>Filename = Path c, MaxSize = 10, MaxBackups = 30, MaxAge = 7, Compress = True\<rparr>"

subsection \<open>What a thread holds, and what holds of every reachable state\<close>

definition pc_of :: "State \<Rightarrow> nat \<Rightarrow> pc" where
  "pc_of s t = pc (threads s ! t)"

definition todo_of :: "State \<Rightarrow> nat \<Rightarrow> call list" where
  "todo_of s t = todo (threads s ! t)"

text \<open>The points at which a thread holds the mutex of the latch \<open>initOnce\<close>.\<close>

fun holds_once :: "pc \<Rightarrow> bool" where
  "holds_once Once_Check = True"
| "holds_once L165 = True"
| "holds_once L165_wait = True"
| "holds_once L168 = True"
| "holds_once L174 = True"
| "holds_once L188 = True"
| "holds_once L166 = True"
| "holds_once Once_Store = True"
| "holds_once Once_Unlock = True"
| "holds_once _ = False"

text \<open>The points at which a thread holds the writers' mutex of \<open>initMu\<close>.\<close>

fun holds_w :: "pc \<Rightarrow> bool" where
  "holds_w L165_wait = True"
| "holds_w L168 = True"
| "holds_w L174 = True"
| "holds_w L188 = True"
| "holds_w L166 = True"
| "holds_w L137_wait = True"
| "holds_w L138 = True"
| "holds_w L139 = True"
| "holds_w L140 = True"
| "holds_w _ = False"




fun is_Log :: "call \<Rightarrow> bool" where
  "is_Log (Log f msg) = True"
| "is_Log _ = False"

fun is_Setup :: "call \<Rightarrow> bool" where
  "is_Setup (SetupCall config) = True"
| "is_Setup _ = False"





text \<open>
  The handle. \<open>before_store\<close>: the points of the default construction, which runs
  only while \<open>sugar\<close> is \<open>nil\<close>. \<open>needs_logger\<close>: the points about to call
  \<open>logger.Sugar()\<close>. \<open>needs_sugar\<close>: the points that are reached only once \<open>sugar\<close>
  is set, the call of the sugared logger among them. No thread has crashed, and once a
  \<open>Setup\<close> has stored \<open>sugar\<close> the last store was a \<open>Setup\<close>'s.
\<close>

fun before_store :: "pc \<Rightarrow> bool" where
  "before_store L174 = True"
| "before_store L188 = True"
| "before_store _ = False"





text \<open>
  The latch. \<open>body_before\<close>: the points of the body up to the default construction;
  there the latch is not done and the construction has not run. \<open>body_after\<close>: the
  points after it up to the store of \<open>done\<close>; at the first of them the construction
  has just run. The construction has run at most once, and when it has, the latch is
  done or its holder stands after the construction.
\<close>

fun body_before :: "pc \<Rightarrow> bool" where
  "body_before L165 = True"
| "body_before L165_wait = True"
| "body_before L168 = True"
| "body_before L174 = True"
| "body_before _ = False"

fun body_after :: "pc \<Rightarrow> bool" where
  "body_after L188 = True"
| "body_after L166 = True"
| "body_after Once_Store = True"
| "body_after _ = False"










subsection \<open>Two processes to run the model on\<close>









section \<open>Properties\<close>

lemmas Level_defs =
  DebugLevel_def InfoLevel_def WarnLevel_def ErrorLevel_def DPanicLevel_def PanicLevel_def
  FatalLevel_def

subsection \<open>The level encoder\<close>

text \<open>
  Claim C5. The level encoder renders debug as \<open>D\<close>, info as \<open>I\<close>, warn as \<open>W\<close>, error
  as \<open>E\<close>, fatal as \<open>F\<close> and panic as \<open>P\<close>; every other level is rendered as the
  upper-case name zap gives it (\<open>CapitalString\<close>); and the encoder is total: for every
  level it appends exactly one string and has no other outcome.
\<close>

theorem EncodeLevel_letters:
  "EncodeLevel CapitalString DebugLevel enc = enc @ [''D''] \<and>
   EncodeLevel CapitalString InfoLevel enc = enc @ [''I''] \<and>
   EncodeLevel CapitalString WarnLevel enc = enc @ [''W''] \<and>
   EncodeLevel CapitalString ErrorLevel enc = enc @ [''E''] \<and>
   EncodeLevel CapitalString FatalLevel enc = enc @ [''F''] \<and>
   EncodeLevel CapitalString PanicLevel enc = enc @ [''P''] \<and>
   (l \<notin> {DebugLevel, InfoLevel, WarnLevel, ErrorLevel, FatalLevel, PanicLevel}
      \<longrightarrow> EncodeLevel CapitalString l enc = enc @ [CapitalString l]) \<and>
   (\<exists>x. EncodeLevel CapitalString l enc = enc @ [x])"
  by (simp add: EncodeLevel_def AppendString_def Level_defs)

theorem EncodeLevel_letters_witness:
  "DPanicLevel \<notin> {DebugLevel, InfoLevel, WarnLevel, ErrorLevel, FatalLevel, PanicLevel} \<and>
   EncodeLevel zap_CapitalString DPanicLevel [] = [''DPANIC''] \<and>
   EncodeLevel zap_CapitalString DebugLevel [] = [''D'']"
  using EncodeLevel_letters [of zap_CapitalString "[]" DPanicLevel]
  by (simp add: zap_CapitalString_def Level_defs)

subsection \<open>The caller encoder\<close>

lemma Index_slash_absent: "CHR ''/'' \<notin> set s \<Longrightarrow> Index s ''/'' = - 1"
  by (induction s) (auto simp: Let_def)

lemma Index_slash_present:
  "CHR ''/'' \<in> set s \<Longrightarrow> Index s ''/'' = int (length (takeWhile (\<lambda>c. c \<noteq> CHR ''/'') s))"
proof (induction s)
  case Nil
  then show ?case by simp
next
  case (Cons a s)
  show ?case
  proof (cases "a = CHR ''/''")
    case True
    then show ?thesis by simp
  next
    case False
    with Cons.prems have "CHR ''/'' \<in> set s" by simp
    with Cons.IH have "Index s ''/'' = int (length (takeWhile (\<lambda>c. c \<noteq> CHR ''/'') s))" .
    with False show ?thesis by (simp add: Let_def)
  qed
qed

lemma drop_takeWhile_slash:
  "CHR ''/'' \<in> set s \<Longrightarrow>
   drop (Suc (length (takeWhile (\<lambda>c. c \<noteq> CHR ''/'') s))) s
     = tl (dropWhile (\<lambda>c. c \<noteq> CHR ''/'') s)"
  by (induction s) auto

lemma length_takeWhile_slash:
  "CHR ''/'' \<in> set s \<Longrightarrow> length (takeWhile (\<lambda>c. c \<noteq> CHR ''/'') s) < length s"
  by (induction s) auto

text \<open>
  Claim C4. For every caller path (the string \<open>TrimmedPath\<close> returns): when it contains
  a \<open>/\<close>, the path is a first segment without \<open>/\<close>, the \<open>/\<close>, and a remainder, and the
  encoder appends exactly the remainder; when it contains no \<open>/\<close>, the encoder appends
  the path unchanged. The slice never panics.
\<close>

theorem EncodeCaller_drops_first_segment:
  "(CHR ''/'' \<in> set (TrimmedPath caller) \<longrightarrow>
      CHR ''/'' \<notin> set (takeWhile (\<lambda>c. c \<noteq> CHR ''/'') (TrimmedPath caller))
      \<and> TrimmedPath caller =
          takeWhile (\<lambda>c. c \<noteq> CHR ''/'') (TrimmedPath caller) @ ''/''
            @ tl (dropWhile (\<lambda>c. c \<noteq> CHR ''/'') (TrimmedPath caller))
      \<and> EncodeCaller TrimmedPath caller enc =
          Inr (enc @ [tl (dropWhile (\<lambda>c. c \<noteq> CHR ''/'') (TrimmedPath caller))]))
   \<and> (CHR ''/'' \<notin> set (TrimmedPath caller) \<longrightarrow>
      EncodeCaller TrimmedPath caller enc = Inr (enc @ [TrimmedPath caller]))"
proof (intro conjI impI)
  let ?p = "TrimmedPath caller"
  let ?rest = "dropWhile (\<lambda>c. c \<noteq> CHR ''/'') ?p"
  show "CHR ''/'' \<notin> set (takeWhile (\<lambda>c. c \<noteq> CHR ''/'') ?p)"
    by (auto dest: set_takeWhileD)
  assume a: "CHR ''/'' \<in> set ?p"
  have "?rest \<noteq> []" using a by simp
  moreover have "hd ?rest = CHR ''/''"
    using a hd_dropWhile [of "\<lambda>c. c \<noteq> CHR ''/''" ?p] by auto
  ultimately have "?rest = CHR ''/'' # tl ?rest"
    by (cases ?rest) auto
  then show "?p = takeWhile (\<lambda>c. c \<noteq> CHR ''/'') ?p @ ''/'' @ tl ?rest"
    using takeWhile_dropWhile_id [of "\<lambda>c. c \<noteq> CHR ''/''" ?p] by simp
  have len: "length (takeWhile (\<lambda>c. c \<noteq> CHR ''/'') ?p) < length ?p"
    using a by (rule length_takeWhile_slash)
  show "EncodeCaller TrimmedPath caller enc = Inr (enc @ [tl ?rest])"
    using a len
    by (simp add: EncodeCaller_def Let_def Index_slash_present slice_from_def AppendString_def
        nat_add_distrib drop_takeWhile_slash)
next
  assume "CHR ''/'' \<notin> set (TrimmedPath caller)"
  then show "EncodeCaller TrimmedPath caller enc = Inr (enc @ [TrimmedPath caller])"
    by (simp add: EncodeCaller_def Let_def Index_slash_absent AppendString_def)
qed

theorem EncodeCaller_drops_first_segment_witness:
  "CHR ''/'' \<in> set ''pkgname/sub/file.go:42''
   \<and> EncodeCaller id ''pkgname/sub/file.go:42'' [] = Inr [''sub/file.go:42'']
   \<and> CHR ''/'' \<notin> set ''file.go:42''
   \<and> EncodeCaller id ''file.go:42'' [] = Inr [''file.go:42'']"
  using EncodeCaller_drops_first_segment [of id "''pkgname/sub/file.go:42''" "[]"]
    EncodeCaller_drops_first_segment [of id "''file.go:42''" "[]"]
  by simp

subsection \<open>Setup: threshold, sinks, buffering and result\<close>

lemma lower_byte_ascii: "of_char (lower_byte c) < (128 :: nat) \<Longrightarrow> of_char c < (128 :: nat)"
  by (auto simp: lower_byte_def split: if_splits)

lemma is_ascii_lowered: "is_ascii (map lower_byte s) \<Longrightarrow> is_ascii s"
  by (induction s) (auto simp: is_ascii_def dest: lower_byte_ascii)

lemma ToLower_ascii: "is_ascii s \<Longrightarrow> ToLower U s = map lower_byte s"
  by (simp add: ToLower_def is_ascii_def)

lemma equal_ignoring_case_names:
  "equal_ignoring_case s ''debug'' = (map lower_byte s = ''debug'')"
  "equal_ignoring_case s ''info'' = (map lower_byte s = ''info'')"
  "equal_ignoring_case s ''warn'' = (map lower_byte s = ''warn'')"
  "equal_ignoring_case s ''warning'' = (map lower_byte s = ''warning'')"
  "equal_ignoring_case s ''error'' = (map lower_byte s = ''error'')"
  "equal_ignoring_case s ''fatal'' = (map lower_byte s = ''fatal'')"
  "equal_ignoring_case s ''panic'' = (map lower_byte s = ''panic'')"
  by (simp_all add: equal_ignoring_case_def lower_byte_def)

lemma spec_threshold_ascii_eq: "spec_threshold_ascii s = spec_threshold (map lower_byte s)"
  by (simp add: spec_threshold_ascii_def spec_threshold_def level_table_def
      equal_ignoring_case_names)

lemma Setup_threshold_None: "Setup_threshold U None = DebugLevel"
  by (simp add: Setup_threshold_def Setup_logger_def Let_def New_def NewCore_def)

lemma Setup_threshold_Some:
  "Setup_threshold U (Some c) =
     (if Level c = [] then DebugLevel else spec_threshold (ToLower U (Level c)))"
  by (simp add: Setup_threshold_def Setup_logger_def Let_def New_def NewCore_def
      spec_threshold_def level_table_def)

lemma spec_threshold_empty: "spec_threshold [] = DebugLevel"
  by (simp add: spec_threshold_def level_table_def)

lemma Setup_threshold_ascii:
  "is_ascii (Level c) \<Longrightarrow> Setup_threshold U (Some c) = spec_threshold_ascii (Level c)"
  by (simp add: Setup_threshold_Some ToLower_ascii spec_threshold_ascii_eq spec_threshold_empty)

lemma recognised_is_ascii:
  assumes "equal_ignoring_case s name" "is_ascii name"
  shows "is_ascii s"
proof -
  have "is_ascii (map lower_byte name)"
    using assms(2) by (induction name) (auto simp: is_ascii_def lower_byte_def)
  then show ?thesis
    using assms(1) is_ascii_lowered by (simp add: equal_ignoring_case_def)
qed

lemma Setup_threshold_name:
  assumes "equal_ignoring_case (Level c) name" "(name, l) \<in> set level_table"
  shows "Setup_threshold U (Some c) = l"
proof -
  have "is_ascii name"
    using assms(2) by (auto simp: level_table_def is_ascii_def)
  then have "is_ascii (Level c)"
    using assms(1) recognised_is_ascii by blast
  then have "Setup_threshold U (Some c) = spec_threshold_ascii (Level c)"
    by (rule Setup_threshold_ascii)
  moreover have "spec_threshold_ascii (Level c) = l"
    using assms
    by (auto simp: spec_threshold_ascii_def level_table_def equal_ignoring_case_names)
  ultimately show ?thesis by simp
qed

text \<open>
  Claim C3. The threshold \<open>Setup\<close> resolves is debug without a configuration and with an
  empty level string. A level string that equals \<open>debug\<close>, \<open>info\<close>, \<open>warn\<close>,
  \<open>warning\<close>, \<open>error\<close>, \<open>fatal\<close> or \<open>panic\<close> but for the case of its letters gives
  the threshold of that name (\<open>warning\<close> the one of \<open>warn\<close>). A level string whose
  lower-cased form is none of the seven names leaves the threshold at debug; for a
  string of ASCII bytes that is the table of the specification read without regard to
  case, and for every non-empty string it is the table applied to the lower-cased string.
  No level string makes \<open>Setup\<close> fail: it returns \<open>nil\<close>.
\<close>

theorem Setup_threshold_mapping:
  "Setup_threshold U None = DebugLevel
   \<and> (Level c = [] \<longrightarrow> Setup_threshold U (Some c) = DebugLevel)
   \<and> (equal_ignoring_case (Level c) ''debug'' \<longrightarrow> Setup_threshold U (Some c) = DebugLevel)
   \<and> (equal_ignoring_case (Level c) ''info'' \<longrightarrow> Setup_threshold U (Some c) = InfoLevel)
   \<and> (equal_ignoring_case (Level c) ''warn'' \<longrightarrow> Setup_threshold U (Some c) = WarnLevel)
   \<and> (equal_ignoring_case (Level c) ''warning'' \<longrightarrow> Setup_threshold U (Some c) = WarnLevel)
   \<and> (equal_ignoring_case (Level c) ''error'' \<longrightarrow> Setup_threshold U (Some c) = ErrorLevel)
   \<and> (equal_ignoring_case (Level c) ''fatal'' \<longrightarrow> Setup_threshold U (Some c) = FatalLevel)
   \<and> (equal_ignoring_case (Level c) ''panic'' \<longrightarrow> Setup_threshold U (Some c) = PanicLevel)
   \<and> (ToLower U (Level c) \<notin> fst ` set level_table \<longrightarrow> Setup_threshold U (Some c) = DebugLevel)
   \<and> (is_ascii (Level c) \<longrightarrow> Setup_threshold U (Some c) = spec_threshold_ascii (Level c))
   \<and> (Level c \<noteq> [] \<longrightarrow> Setup_threshold U (Some c) = spec_threshold (ToLower U (Level c)))
   \<and> (\<exists>g'. Setup U (Some c) g = Inr (None, g'))"
proof -
  have tbl:
    "(''debug'', DebugLevel) \<in> set level_table" "(''info'', InfoLevel) \<in> set level_table"
    "(''warn'', WarnLevel) \<in> set level_table" "(''warning'', WarnLevel) \<in> set level_table"
    "(''error'', ErrorLevel) \<in> set level_table" "(''fatal'', FatalLevel) \<in> set level_table"
    "(''panic'', PanicLevel) \<in> set level_table"
    by (simp_all add: level_table_def)
  have other: "Setup_threshold U (Some c) = DebugLevel"
    if "ToLower U (Level c) \<notin> fst ` set level_table"
  proof -
    from that have "map_of level_table (ToLower U (Level c)) = None"
      by (simp add: map_of_eq_None_iff)
    then have "spec_threshold (ToLower U (Level c)) = DebugLevel"
      by (simp add: spec_threshold_def)
    then show ?thesis
      by (simp add: Setup_threshold_Some)
  qed
  have ret: "\<exists>g'. Setup U (Some c) g = Inr (None, g')"
    by (simp add: Setup_def Let_def)
  have empty: "Level c = [] \<Longrightarrow> Setup_threshold U (Some c) = DebugLevel"
    by (simp add: Setup_threshold_Some)
  have nonempty:
    "Level c \<noteq> [] \<Longrightarrow> Setup_threshold U (Some c) = spec_threshold (ToLower U (Level c))"
    by (simp add: Setup_threshold_Some)
  note names = Setup_threshold_name [of c _ _ U]
  from Setup_threshold_None [of U] empty names [OF _ tbl(1)] names [OF _ tbl(2)]
    names [OF _ tbl(3)] names [OF _ tbl(4)] names [OF _ tbl(5)] names [OF _ tbl(6)]
    names [OF _ tbl(7)] other Setup_threshold_ascii [of c U] nonempty ret
  show ?thesis
    by blast
qed

theorem Setup_threshold_mapping_witness:
  "equal_ignoring_case ''WaRNing'' ''warning''
   \<and> Setup_threshold id
        (Some \<lparr>Level = ''WaRNing'', Path = ''app.log'', Console = True, Async = False\<rparr>)
       = WarnLevel
   \<and> is_ascii ''verbose''
   \<and> Setup_threshold id
        (Some \<lparr>Level = ''verbose'', Path = ''app.log'', Console = True, Async = False\<rparr>)
       = DebugLevel"
  using Setup_threshold_mapping [of id "\<lparr>Level = ''WaRNing'', Path = ''app.log'', Console = True, Async = False\<rparr>"
      "\<lparr>logger = None, sugar = None\<rparr>"]
    Setup_threshold_mapping [of id "\<lparr>Level = ''verbose'', Path = ''app.log'', Console = True, Async = False\<rparr>"
      "\<lparr>logger = None, sugar = None\<rparr>"]
  by (simp add: equal_ignoring_case_def lower_byte_def is_ascii_def spec_threshold_ascii_def
      level_table_def)

lemma Setup_writer_None: "Setup_writer U None = AddSync os_Stdout"
  by (simp add: Setup_writer_def Setup_logger_def Let_def New_def NewCore_def NewMultiWriteSyncer_def)

lemma Setup_writer_Some:
  "Setup_writer U (Some c) =
     (let w = (if Console c then multiWriteSyncer [AddSync os_Stdout, AddSync (rotating_file c)]
               else AddSync (rotating_file c))
      in if Async c then BufferedWriteSyncer w 4096 else w)"
  by (simp add: Setup_writer_def Setup_logger_def Let_def New_def NewCore_def
      NewMultiWriteSyncer_def rotating_file_def)

text \<open>
  Claim C7. Without a configuration the output is the console only. With a
  configuration the file sink is a rotating file on the configured path with a maximal
  size of 10 (megabytes), 30 retained files, a maximal age of 7 (days) and compression;
  the output goes to the console and that file when \<open>Console\<close> is set, and to that
  file only when it is not.
\<close>

theorem Setup_sinks:
  "sinks (Setup_writer U None) = [os_Stdout]
   \<and> (Console c \<longrightarrow> sinks (Setup_writer U (Some c)) = [os_Stdout, rotating_file c])
   \<and> (\<not> Console c \<longrightarrow> sinks (Setup_writer U (Some c)) = [rotating_file c])
   \<and> rotating_file c =
       hook \<lparr>Filename = Path c, MaxSize = 10, MaxBackups = 30, MaxAge = 7, Compress = True\<rparr>"
  by (simp add: Setup_writer_None Setup_writer_Some Let_def rotating_file_def)

theorem Setup_sinks_witness:
  "Console \<lparr>Level = ''info'', Path = ''/var/log/app.log'', Console = True, Async = False\<rparr>
   \<and> sinks (Setup_writer id
         (Some \<lparr>Level = ''info'', Path = ''/var/log/app.log'', Console = True, Async = False\<rparr>))
       = [os_Stdout,
          hook \<lparr>Filename = ''/var/log/app.log'', MaxSize = 10, MaxBackups = 30, MaxAge = 7,
                Compress = True\<rparr>]
   \<and> \<not> Console \<lparr>Level = ''info'', Path = ''/var/log/app.log'', Console = False, Async = True\<rparr>
   \<and> sinks (Setup_writer id
         (Some \<lparr>Level = ''info'', Path = ''/var/log/app.log'', Console = False, Async = True\<rparr>))
       = [hook \<lparr>Filename = ''/var/log/app.log'', MaxSize = 10, MaxBackups = 30, MaxAge = 7,
                Compress = True\<rparr>]"
  using Setup_sinks [of id "\<lparr>Level = ''info'', Path = ''/var/log/app.log'', Console = True, Async = False\<rparr>"]
    Setup_sinks [of id "\<lparr>Level = ''info'', Path = ''/var/log/app.log'', Console = False, Async = True\<rparr>"]
  by (simp add: rotating_file_def)

text \<open>
  Claim C8. The syncer \<open>Setup\<close> resolves is a buffered one if and only if a
  configuration is present and its \<open>Async\<close> flag is set; then it is the buffer of size
  4096 around the syncer the same configuration resolves to without the flag, and
  otherwise it is that syncer itself, unbuffered.
\<close>

theorem Setup_buffering:
  "(is_buffered (Setup_writer U config) \<longleftrightarrow> (\<exists>c. config = Some c \<and> Async c))
   \<and> (Async c \<longrightarrow>
        Setup_writer U (Some c) = BufferedWriteSyncer (Setup_writer U (Some (c\<lparr>Async := False\<rparr>))) 4096)
   \<and> (\<not> Async c \<longrightarrow> Setup_writer U (Some c) = Setup_writer U (Some (c\<lparr>Async := False\<rparr>)))"
  by (cases config) (simp_all add: Setup_writer_None Setup_writer_Some Let_def rotating_file_def)

theorem Setup_buffering_witness:
  "Async \<lparr>Level = ''info'', Path = ''/var/log/app.log'', Console = False, Async = True\<rparr>
   \<and> Setup_writer id
        (Some \<lparr>Level = ''info'', Path = ''/var/log/app.log'', Console = False, Async = True\<rparr>)
       = BufferedWriteSyncer
           (AddSync (hook \<lparr>Filename = ''/var/log/app.log'', MaxSize = 10, MaxBackups = 30,
              MaxAge = 7, Compress = True\<rparr>)) 4096
   \<and> \<not> is_buffered (Setup_writer id None)"
  using Setup_buffering [of id "Some \<lparr>Level = ''info'', Path = ''/var/log/app.log'', Console = False, Async = True\<rparr>"
      "\<lparr>Level = ''info'', Path = ''/var/log/app.log'', Console = False, Async = True\<rparr>"]
    Setup_buffering [of id None]
  by (simp add: Setup_writer_Some Let_def rotating_file_def)

text \<open>
  Claim C9. For every configuration, present or not, and every prior state of the
  package variables, \<open>Setup\<close> returns a \<open>nil\<close> error and does not panic; \<open>Unsetup\<close>
  returns a \<open>nil\<close> error, does not panic and leaves the state as it was.
\<close>

theorem Setup_Unsetup_return_nil:
  "(\<exists>g'. Setup U config g = Inr (None, g')) \<and> Unsetup g = Inr (None, g)"
  by (simp add: Setup_def Unsetup_def Let_def)

theorem Setup_Unsetup_return_nil_witness:
  "(\<exists>g'. Setup id None \<lparr>logger = None, sugar = None\<rparr> = Inr (None, g'))
   \<and> Unsetup \<lparr>logger = None, sugar = None\<rparr> = Inr (None, \<lparr>logger = None, sugar = None\<rparr>)"
  using Setup_Unsetup_return_nil [of id None "\<lparr>logger = None, sugar = None\<rparr>"]
  by simp

text \<open>
  Claim C10. The logger \<open>Setup\<close> builds for a \<open>nil\<close> configuration is the logger the
  body of \<open>ensureInitialized\<close> builds, and \<open>Setup\<close> installs it: the custom time,
  level and caller encoders, the seconds duration encoder, a single space as separator,
  the console as only sink, the debug threshold, and caller attribution that skips one
  frame.
\<close>

theorem Setup_nil_is_default:
  "Setup_logger U None = default_logger
   \<and> Setup U None g = Inr (None, g\<lparr>logger := Some default_logger, sugar := Some (Sugar default_logger)\<rparr>)
   \<and> EncodeTime_enc (encoder (core default_logger)) = customTimeEncoder
   \<and> EncodeLevel_enc (encoder (core default_logger)) = customLevelEncoder
   \<and> EncodeCaller_enc (encoder (core default_logger)) = customCallerEncoder
   \<and> EncodeDuration_enc (encoder (core default_logger)) = SecondsDurationEncoder
   \<and> ConsoleSeparator (encoder (core default_logger)) = '' ''
   \<and> out (core default_logger) = AddSync os_Stdout
   \<and> sinks (out (core default_logger)) = [os_Stdout]
   \<and> enab (core default_logger) = DebugLevel
   \<and> addCaller default_logger
   \<and> callerSkip default_logger = 1"
  by (simp add: Setup_def Setup_logger_def default_logger_def Let_def New_def NewCore_def
      NewConsoleEncoder_def NewMultiWriteSyncer_def)

subsection \<open>The time encoder\<close>

lemma digit_char_mod: "digit_char (n mod 10) = digit_char n"
  by (simp add: digit_char_def)

lemma digit_char_0: "digit_char 0 = CHR ''0''"
  by (simp add: digit_char_def)

lemma digit_char_is_digit: "digit_char n \<in> set ''0123456789''"
proof -
  have "n mod 10 < length ''0123456789''" by simp
  then have "''0123456789'' ! (n mod 10) \<in> set ''0123456789''" by (rule nth_mem)
  then show ?thesis by (simp only: digit_char_def)
qed

lemma fixed_zero: "fixed w 0 = replicate w (CHR ''0'')"
  by (induction w) (simp_all add: digit_char_0 replicate_append_same)

lemma length_fixed: "length (fixed w n) = w"
  by (induction w arbitrary: n) simp_all

lemma utoa_small: "n < 10 \<Longrightarrow> utoa n = [digit_char n]"
  by (subst utoa.simps) simp

lemma utoa_large: "\<not> n < 10 \<Longrightarrow> utoa n = utoa (n div 10) @ [digit_char (n mod 10)]"
  by (subst utoa.simps) simp

lemma length_utoa: "0 < w \<Longrightarrow> n < 10 ^ w \<Longrightarrow> length (utoa n) \<le> w"
proof (induction w arbitrary: n)
  case 0
  then show ?case by simp
next
  case (Suc w)
  show ?case
  proof (cases "n < 10")
    case True
    then show ?thesis by (simp add: utoa_small)
  next
    case False
    then have "0 < w" using Suc.prems by (cases w) auto
    moreover have "n div 10 < 10 ^ w" using Suc.prems by (simp add: less_mult_imp_div_less mult.commute)
    ultimately have "length (utoa (n div 10)) \<le> w" by (rule Suc.IH)
    with False show ?thesis by (simp add: utoa_large)
  qed
qed

lemma pad_fixed:
  "0 < w \<Longrightarrow> n < 10 ^ w \<Longrightarrow> replicate (w - length (utoa n)) (CHR ''0'') @ utoa n = fixed w n"
proof (induction w arbitrary: n)
  case 0
  then show ?case by simp
next
  case (Suc w)
  show ?case
  proof (cases "n < 10")
    case True
    then show ?thesis
      by (simp add: utoa_small fixed_zero digit_char_mod)
  next
    case False
    then have w: "0 < w" using Suc.prems by (cases w) auto
    have small: "n div 10 < 10 ^ w"
      using Suc.prems by (simp add: less_mult_imp_div_less mult.commute)
    have len: "length (utoa (n div 10)) \<le> w"
      using w small by (rule length_utoa)
    have "replicate (w - length (utoa (n div 10))) (CHR ''0'') @ utoa (n div 10) = fixed w (n div 10)"
      using w small by (rule Suc.IH)
    with False len show ?thesis
      by (simp add: utoa_large Suc_diff_le)
  qed
qed

lemma appendInt_fixed:
  "0 < w \<Longrightarrow> n < 10 ^ w \<Longrightarrow> appendInt (int n) w = fixed w n"
  by (simp add: appendInt_def Let_def pad_fixed)

lemma take_fixed: "take k (fixed (k + j) n) = fixed k (n div 10 ^ j)"
proof (induction j arbitrary: n)
  case 0
  then show ?case by (simp add: length_fixed)
next
  case (Suc j)
  have "take k (fixed (k + Suc j) n) = take k (fixed (k + j) (n div 10))"
    by (simp add: length_fixed)
  also have "\<dots> = fixed k (n div 10 div 10 ^ j)"
    by (rule Suc.IH)
  finally show ?case
    by (simp add: div_mult2_eq)
qed

lemma layout_chunks:
  "chunks ''20060102 15:04:05.000'' =
     [stdLongYear, stdZeroMonth, stdZeroDay, Lit CHR '' '', stdHour, Lit CHR '':'',
      stdZeroMinute, Lit CHR '':'', stdZeroSecond, stdFracSecond0 3 CHR ''.'']"
  by code_simp

lemma fixed_numeral:
  "fixed (numeral k) n = fixed (pred_numeral k) (n div 10) @ [digit_char (n mod 10)]"
proof -
  have "fixed (Suc (pred_numeral k)) n
          = fixed (pred_numeral k) (n div 10) @ [digit_char (n mod 10)]"
    by (rule fixed.simps)
  then show ?thesis
    by (simp only: numeral_eq_Suc [symmetric])
qed

lemma fixed_2: "fixed 2 n = [digit_char (n div 10 mod 10), digit_char (n mod 10)]"
  by (simp add: fixed_numeral)

lemma fixed_3:
  "fixed 3 n =
     [digit_char (n div 10 div 10 mod 10), digit_char (n div 10 mod 10), digit_char (n mod 10)]"
  by (simp add: fixed_numeral)

lemma fixed_4:
  "fixed 4 n =
     [digit_char (n div 10 div 10 div 10 mod 10), digit_char (n div 10 div 10 mod 10),
      digit_char (n div 10 mod 10), digit_char (n mod 10)]"
  by (simp add: fixed_numeral)

lemma in_pattern_fixed:
  "in_pattern (fixed 4 y @ fixed 2 mo @ fixed 2 d @ '' '' @ fixed 2 h @ '':'' @ fixed 2 mi
     @ '':'' @ fixed 2 s @ ''.'' @ fixed 3 ms)"
  unfolding in_pattern_def fixed_2 fixed_3 fixed_4
  by (simp add: digit_char_is_digit del: set_simps)

text \<open>
  Claim C6, as amended. For every timestamp whose year lies between 0 and 9999 (and
  whose month, day and clock fields are in the ranges Go gives them), the time encoder
  appends one string, the timestamp in the pattern \<open>YYYYMMDD HH:MM:SS.mmm\<close>: four
  digits of the year, two of the month, two of the day, a space, the two-digit hour,
  minute and second separated by colons, a point, and the three digits of the
  nanoseconds cut to milliseconds; nothing marks a time zone. The instant
  2024-03-05T07:08:09.123 renders as \<open>20240305 07:08:09.123\<close>.
\<close>

theorem EncodeTime_pattern:
  assumes "clock_fields_ok t" and "0 \<le> Year t" and "Year t \<le> 9999"
  shows "EncodeTime t enc = enc @ [pattern_YYYYMMDD_HHMMSS_mmm t]
         \<and> in_pattern (pattern_YYYYMMDD_HHMMSS_mmm t)"
proof -
  from assms have y: "appendInt (Year t) 4 = fixed 4 (nat (Year t))"
    using appendInt_fixed [of 4 "nat (Year t)"] by simp
  from assms(1) have f:
    "appendInt (int (Month t)) 2 = fixed 2 (Month t)"
    "appendInt (int (Day t)) 2 = fixed 2 (Day t)"
    "appendInt (int (Hour t)) 2 = fixed 2 (Hour t)"
    "appendInt (int (Minute t)) 2 = fixed 2 (Minute t)"
    "appendInt (int (Second t)) 2 = fixed 2 (Second t)"
    by (simp_all add: clock_fields_ok_def appendInt_fixed)
  from assms(1) have "appendInt (int (Nanosecond t)) 9 = fixed 9 (Nanosecond t)"
    by (simp add: clock_fields_ok_def appendInt_fixed)
  then have ns: "take 3 (appendInt (int (Nanosecond t)) 9) = fixed 3 (Nanosecond t div 1000000)"
    using take_fixed [of 3 6 "Nanosecond t"] by simp
  have "Format t ''20060102 15:04:05.000'' = pattern_YYYYMMDD_HHMMSS_mmm t"
    unfolding Format_def layout_chunks pattern_YYYYMMDD_HHMMSS_mmm_def
    by (simp add: y f ns)
  moreover have "in_pattern (pattern_YYYYMMDD_HHMMSS_mmm t)"
    unfolding pattern_YYYYMMDD_HHMMSS_mmm_def by (rule in_pattern_fixed)
  ultimately show ?thesis
    by (simp add: EncodeTime_def AppendString_def)
qed

lemma pattern_example:
  "pattern_YYYYMMDD_HHMMSS_mmm
     \<lparr>Year = 2024, Month = 3, Day = 5, YearDay = 65, Hour = 7, Minute = 8, Second = 9,
      Nanosecond = 123000000\<rparr> = ''20240305 07:08:09.123''"
  by (simp add: pattern_YYYYMMDD_HHMMSS_mmm_def fixed_2 fixed_3 fixed_4 digit_char_def)

theorem EncodeTime_pattern_witness:
  "clock_fields_ok \<lparr>Year = 2024, Month = 3, Day = 5, YearDay = 65, Hour = 7, Minute = 8,
      Second = 9, Nanosecond = 123000000\<rparr>
   \<and> EncodeTime \<lparr>Year = 2024, Month = 3, Day = 5, YearDay = 65, Hour = 7, Minute = 8,
      Second = 9, Nanosecond = 123000000\<rparr> [] = [''20240305 07:08:09.123'']
   \<and> in_pattern ''20240305 07:08:09.123''"
proof -
  have ok: "clock_fields_ok \<lparr>Year = 2024, Month = 3, Day = 5, YearDay = 65, Hour = 7,
      Minute = 8, Second = 9, Nanosecond = 123000000\<rparr>"
    by (simp add: clock_fields_ok_def)
  show ?thesis
    using ok EncodeTime_pattern [OF ok, of "[]"] by (simp add: pattern_example)
qed

lemma replicate_numeral: "replicate (numeral k) x = x # replicate (pred_numeral k) x"
proof -
  have "replicate (Suc (pred_numeral k)) x = x # replicate (pred_numeral k) x"
    by (rule replicate.simps)
  then show ?thesis
    by (simp only: numeral_eq_Suc [symmetric])
qed

lemma appendInt_examples:
  "appendInt 10000 4 = ''10000''"
  "appendInt (int 1) 2 = ''01''"
  "appendInt (int 0) 2 = ''00''"
  "take 3 (appendInt (int 0) 9) = ''000''"
  by (simp_all add: appendInt_def Let_def utoa_small utoa_large digit_char_def
      replicate_numeral)

text \<open>
  The claim as stated, for every timestamp, fails from the year 10000 on: Go's
  \<open>Format\<close> pads the year to four digits but never cuts it, so the year takes five
  digits and the string no longer has the shape of the pattern.
\<close>

theorem EncodeTime_year_10000:
  "clock_fields_ok \<lparr>Year = 10000, Month = 1, Day = 1, YearDay = 1, Hour = 0, Minute = 0,
      Second = 0, Nanosecond = 0\<rparr>
   \<and> EncodeTime \<lparr>Year = 10000, Month = 1, Day = 1, YearDay = 1, Hour = 0, Minute = 0,
      Second = 0, Nanosecond = 0\<rparr> [] = [''100000101 00:00:00.000'']
   \<and> \<not> in_pattern ''100000101 00:00:00.000''"
proof -
  have "Format \<lparr>Year = 10000, Month = 1, Day = 1, YearDay = 1, Hour = 0, Minute = 0,
      Second = 0, Nanosecond = 0\<rparr> ''20060102 15:04:05.000'' = ''100000101 00:00:00.000''"
    unfolding Format_def layout_chunks using appendInt_examples by simp
  then show ?thesis
    by (simp add: clock_fields_ok_def EncodeTime_def AppendString_def in_pattern_def)
qed

subsection \<open>The process: invariants of every reachable state\<close>

lemma goto_fields [simp]:
  "logger (goto t p s) = logger s"
  "sugar (goto t p s) = sugar s"
  "initOnce_done (goto t p s) = initOnce_done s"
  "initOnce_m (goto t p s) = initOnce_m s"
  "initMu_w (goto t p s) = initMu_w s"
  "initMu_readers (goto t p s) = initMu_readers s"
  "written (goto t p s) = written s"
  "default_runs (goto t p s) = default_runs s"
  "setup_installs (goto t p s) = setup_installs s"
  "from_setup (goto t p s) = from_setup s"
  "exited (goto t p s) = exited s"
  "length (threads (goto t p s)) = length (threads s)"
  by (simp_all add: goto_def)

lemma return_fields [simp]:
  "logger (return t s) = logger s"
  "sugar (return t s) = sugar s"
  "initOnce_done (return t s) = initOnce_done s"
  "initOnce_m (return t s) = initOnce_m s"
  "initMu_w (return t s) = initMu_w s"
  "initMu_readers (return t s) = initMu_readers s"
  "written (return t s) = written s"
  "default_runs (return t s) = default_runs s"
  "setup_installs (return t s) = setup_installs s"
  "from_setup (return t s) = from_setup s"
  "exited (return t s) = exited s"
  "length (threads (return t s)) = length (threads s)"
  by (simp_all add: return_def)

lemma pc_of_goto [simp]:
  "t < length (threads s) \<Longrightarrow> pc_of (goto t p s) u = (if u = t then p else pc_of s u)"
  by (simp add: pc_of_def goto_def)

lemma todo_of_goto [simp]: "todo_of (goto t p s) u = todo_of s u"
proof (cases "t < length (threads s)")
  case True
  then show ?thesis by (simp add: todo_of_def goto_def nth_list_update)
next
  case False
  then have "length (threads s) \<le> t" by simp
  then show ?thesis by (simp add: todo_of_def goto_def list_update_beyond)
qed

lemma pc_of_return [simp]:
  "t < length (threads s) \<Longrightarrow> pc_of (return t s) u = (if u = t then Idle else pc_of s u)"
  by (simp add: pc_of_def return_def)

lemma todo_of_return [simp]:
  "t < length (threads s) \<Longrightarrow>
   todo_of (return t s) u = (if u = t then tl (todo_of s t) else todo_of s u)"
  by (simp add: todo_of_def return_def)

lemma pc_of_update [simp]:
  "pc_of (s\<lparr>logger := a\<rparr>) = pc_of s"
  "pc_of (s\<lparr>sugar := b\<rparr>) = pc_of s"
  "pc_of (s\<lparr>initOnce_done := c\<rparr>) = pc_of s"
  "pc_of (s\<lparr>initOnce_m := d\<rparr>) = pc_of s"
  "pc_of (s\<lparr>initMu_w := e\<rparr>) = pc_of s"
  "pc_of (s\<lparr>initMu_readers := f\<rparr>) = pc_of s"
  "pc_of (s\<lparr>written := g\<rparr>) = pc_of s"
  "pc_of (s\<lparr>default_runs := h\<rparr>) = pc_of s"
  "pc_of (s\<lparr>setup_installs := i\<rparr>) = pc_of s"
  "pc_of (s\<lparr>from_setup := j\<rparr>) = pc_of s"
  "pc_of (s\<lparr>exited := k\<rparr>) = pc_of s"
  by (simp_all add: pc_of_def fun_eq_iff)

lemma todo_of_update [simp]:
  "todo_of (s\<lparr>logger := a\<rparr>) = todo_of s"
  "todo_of (s\<lparr>sugar := b\<rparr>) = todo_of s"
  "todo_of (s\<lparr>initOnce_done := c\<rparr>) = todo_of s"
  "todo_of (s\<lparr>initOnce_m := d\<rparr>) = todo_of s"
  "todo_of (s\<lparr>initMu_w := e\<rparr>) = todo_of s"
  "todo_of (s\<lparr>initMu_readers := f\<rparr>) = todo_of s"
  "todo_of (s\<lparr>written := g\<rparr>) = todo_of s"
  "todo_of (s\<lparr>default_runs := h\<rparr>) = todo_of s"
  "todo_of (s\<lparr>setup_installs := i\<rparr>) = todo_of s"
  "todo_of (s\<lparr>from_setup := j\<rparr>) = todo_of s"
  "todo_of (s\<lparr>exited := k\<rparr>) = todo_of s"
  by (simp_all add: todo_of_def fun_eq_iff)



lemma held_pcs [simp]:
  "\<not> holds_w p \<Longrightarrow> before_store p = False"
  "\<not> holds_once p \<Longrightarrow> body_before p = False"
  "\<not> holds_once p \<Longrightarrow> body_after p = False"
  by (cases p; simp)+










subsection \<open>A process that only logs\<close>

lemma is_Setup_not_Log [simp]: "is_Setup c \<Longrightarrow> is_Log c = False"
  by (cases c) simp_all


lemma sint_levels [simp]:
  "sint DebugLevel = - 1" "sint InfoLevel = 0" "sint WarnLevel = 1" "sint ErrorLevel = 2"
  "sint DPanicLevel = 3" "sint PanicLevel = 4" "sint FatalLevel = 5"
  by (simp_all add: Level_defs)

lemma Level_distinct [simp]:
  "DebugLevel \<noteq> FatalLevel" "InfoLevel \<noteq> FatalLevel" "WarnLevel \<noteq> FatalLevel"
  "ErrorLevel \<noteq> FatalLevel" "PanicLevel \<noteq> FatalLevel"
  "DebugLevel \<noteq> PanicLevel" "InfoLevel \<noteq> PanicLevel" "WarnLevel \<noteq> PanicLevel"
  "ErrorLevel \<noteq> PanicLevel"
  by (simp_all add: Level_defs)







subsection \<open>No deadlock, and a bound on every run\<close>













subsection \<open>Every completed call has written its entry\<close>




subsection \<open>Logging before Setup, and Setup against the lazy default\<close>







subsection \<open>The two processes, run\<close>








end
